theory Spec2Isabelle
  imports Main
begin

section \<open>JavaScript values and thrown errors\<close>

text \<open>
  The hook handles three kinds of dynamically typed data: the body of the profile
  response (\<^verbatim>\<open>data.data[0]\<close>), the body of the validation response
  (\<^verbatim>\<open>data.login\<close>) and the result of \<^verbatim>\<open>JSON.parse\<close> on the
  persisted user. They are values of \<open>jsval\<close>: JSON data plus \<^verbatim>\<open>undefined\<close>.
  Numbers are restricted to integers.
\<close>

datatype jsval =
    JUndefined
  | JNull
  | JBool bool
  | JNum int
  | JStr string
  | JArr "jsval list"
  | JObj "(string \<times> jsval) list"

text \<open>A thrown value: an \<^verbatim>\<open>Error\<close> object with its name and its message.\<close>

datatype js_error = JsError (err_name: string) (err_message: string)

text \<open>\<^verbatim>\<open>Error.prototype.toString\<close>, which \<^verbatim>\<open>String(e)\<close> calls.\<close>

definition error_toString :: "js_error \<Rightarrow> string" where
  "error_toString e =
     (if err_name e = [] then err_message e
      else if err_message e = [] then err_name e
      else err_name e @ '': '' @ err_message e)"

text \<open>\<^verbatim>\<open>new Error(msg)\<close> for a string, and \<^verbatim>\<open>new Error(e as any)\<close> for a caught
  error: the message of the new error is \<^verbatim>\<open>String(e)\<close>.\<close>

definition new_Error :: "string \<Rightarrow> js_error" where
  "new_Error msg = JsError ''Error'' msg"

definition new_Error_of :: "js_error \<Rightarrow> js_error" where
  "new_Error_of e = new_Error (error_toString e)"

text \<open>Reading an own property of an object; a missing property reads as
  \<^verbatim>\<open>undefined\<close>.\<close>

definition own_prop :: "(string \<times> jsval) list \<Rightarrow> string \<Rightarrow> jsval" where
  "own_prop fs k = (case map_of fs k of None \<Rightarrow> JUndefined | Some v \<Rightarrow> v)"

text \<open>\<^verbatim>\<open>v.k\<close> for the property names the hook reads (\<^verbatim>\<open>data\<close>, \<^verbatim>\<open>login\<close>):
  \<open>None\<close> is the TypeError of reading a property of \<^verbatim>\<open>null\<close> or
  \<^verbatim>\<open>undefined\<close>; primitives and arrays have no property of these names.\<close>

fun get_prop :: "jsval \<Rightarrow> string \<Rightarrow> jsval option" where
  "get_prop JUndefined k = None"
| "get_prop JNull k = None"
| "get_prop (JObj fs) k = Some (own_prop fs k)"
| "get_prop v k = Some JUndefined"

text \<open>\<^verbatim>\<open>v?.k\<close>: optional chaining yields \<^verbatim>\<open>undefined\<close> where \<^verbatim>\<open>v.k\<close>
  would throw.\<close>

definition opt_prop :: "jsval \<Rightarrow> string \<Rightarrow> jsval" where
  "opt_prop v k = (case get_prop v k of None \<Rightarrow> JUndefined | Some x \<Rightarrow> x)"

text \<open>\<^verbatim>\<open>v[0]\<close>: the first element of an array, the property \<^verbatim>\<open>"0"\<close> of an
  object, the first character of a string.\<close>

fun index0 :: "jsval \<Rightarrow> jsval option" where
  "index0 JUndefined = None"
| "index0 JNull = None"
| "index0 (JArr xs) = Some (case xs of [] \<Rightarrow> JUndefined | x # _ \<Rightarrow> x)"
| "index0 (JObj fs) = Some (own_prop fs ''0'')"
| "index0 (JStr s) = Some (case s of [] \<Rightarrow> JUndefined | c # _ \<Rightarrow> JStr [c])"
| "index0 v = Some JUndefined"

text \<open>\<^verbatim>\<open>a === b\<close>. Two arrays or objects that come from two different responses are
  different references, so they are never strictly equal.\<close>

fun strict_eq :: "jsval \<Rightarrow> jsval \<Rightarrow> bool" where
  "strict_eq JUndefined JUndefined = True"
| "strict_eq JNull JNull = True"
| "strict_eq (JBool a) (JBool b) = (a = b)"
| "strict_eq (JNum a) (JNum b) = (a = b)"
| "strict_eq (JStr a) (JStr b) = (a = b)"
| "strict_eq a b = False"

section \<open>The data of the hook\<close>

record StartAsyncParams =
  access_token :: string
  scope :: string
  state :: string
  token_type :: string

text \<open>The fields \<^verbatim>\<open>authentication\<close> and \<^verbatim>\<open>errorCode\<close> of the response are
  always \<^verbatim>\<open>null\<close> and are never read.\<close>

record StartAsyncResponse =
  params :: StartAsyncParams
  type :: string
  url :: string

definition authorization :: string where
  "authorization = ''https://id.twitch.tv/oauth2/authorize''"

definition revocation :: string where
  "revocation = ''https://id.twitch.tv/oauth2/revoke''"

definition validate_url :: string where
  "validate_url = ''https://id.twitch.tv/oauth2/validate''"

definition KEYS_TOKEN :: string where
  "KEYS_TOKEN = ''@twitch:token''"

definition KEYS_USER :: string where
  "KEYS_USER = ''@twitch:user''"

section \<open>The environment of a run\<close>

text \<open>
  Everything the hook awaits is outside the repository. A run is determined by the
  outcome of each external call: \<open>Inl\<close> (or \<open>Some\<close> for a call without a result)
  is a rejected promise. The storage calls read and write the \<open>storage\<close> of the
  world below; the environment only says which of them are rejected.
\<close>

record env =
  CLIENT_ID :: string
  makeRedirectUri :: string
  generateRandom :: "nat \<Rightarrow> string"
  startAsync :: "js_error + StartAsyncResponse"
  api_get :: "js_error + jsval"
  revokeAsync :: "js_error option"
  axios_get :: "js_error + jsval"
  getItem_error :: "string \<Rightarrow> js_error option"
  setItem_error :: "string \<Rightarrow> js_error option"
  removeItem_error :: "string \<Rightarrow> js_error option"
  invalid_value :: js_error
  type_error :: js_error
  JSON_stringify :: "jsval \<Rightarrow> string"
  JSON_parse :: "string \<Rightarrow> js_error + jsval"

text \<open>The calls a run makes, in order: the state setters of the component and the
  external calls with their arguments.\<close>

datatype event =
    SetIsLoggingIn bool
  | SetIsLoggingOut bool
  | SetUser jsval
  | SetUserToken string
  | StartAsync string
  | ApiGet string "(string \<times> string) list"
  | AxiosGet string "(string \<times> string) list"
  | RevokeAsync string string string
  | GetItem string
  | SetItem string "string option"
  | RemoveItem string
  | ConsoleLog string

text \<open>
  The state the hook reads and writes: the four \<^verbatim>\<open>useState\<close> cells, the
  process-wide \<^verbatim>\<open>api.defaults.headers.common\<close>, the persistent
  \<^verbatim>\<open>AsyncStorage\<close>, and the calls made so far.
\<close>

record world =
  isLoggingOut :: bool
  isLoggingIn :: bool
  user :: jsval
  userToken :: string
  headers :: "string \<rightharpoonup> string"
  storage :: "string \<rightharpoonup> string"
  trace :: "event list"

definition emit :: "event \<Rightarrow> world \<Rightarrow> world" where
  "emit e w = w\<lparr>trace := trace w @ [e]\<rparr>"

definition setIsLoggingIn :: "bool \<Rightarrow> world \<Rightarrow> world" where
  "setIsLoggingIn b w = emit (SetIsLoggingIn b) (w\<lparr>isLoggingIn := b\<rparr>)"

definition setIsLoggingOut :: "bool \<Rightarrow> world \<Rightarrow> world" where
  "setIsLoggingOut b w = emit (SetIsLoggingOut b) (w\<lparr>isLoggingOut := b\<rparr>)"

definition setUser :: "jsval \<Rightarrow> world \<Rightarrow> world" where
  "setUser u w = emit (SetUser u) (w\<lparr>user := u\<rparr>)"

definition set_header :: "string \<Rightarrow> string \<Rightarrow> world \<Rightarrow> world" where
  "set_header k v w = w\<lparr>headers := (headers w)(k \<mapsto> v)\<rparr>"

definition delete_header :: "string \<Rightarrow> world \<Rightarrow> world" where
  "delete_header k w = w\<lparr>headers := (headers w)(k := None)\<rparr>"

text \<open>
  The effect with dependency \<^verbatim>\<open>[userToken]\<close> (lines 187 to 197): it runs after the
  first render and after every render in which \<^verbatim>\<open>userToken\<close> has changed.
\<close>

definition header_sync :: "env \<Rightarrow> world \<Rightarrow> world" where
  "header_sync env w =
     (let w1 = set_header ''Client-Id'' (CLIENT_ID env) w
      in if userToken w1 \<noteq> [] then set_header ''Authorization'' (''Bearer '' @ userToken w1) w1
         else w1)"

text \<open>
  \<^verbatim>\<open>setUserToken(t)\<close>. React renders again only when the value has changed, and the
  effect above then runs. It is run here at the setter: the only other writes to the
  headers are the assignment in \<open>signIn\<close>, of the value the effect writes, and the
  deletion in \<open>signOut\<close>, where the token is empty and the effect leaves
  \<^verbatim>\<open>Authorization\<close> alone.
\<close>

definition setUserToken :: "env \<Rightarrow> string \<Rightarrow> world \<Rightarrow> world" where
  "setUserToken env t w =
     (let w1 = emit (SetUserToken t) (w\<lparr>userToken := t\<rparr>)
      in if t = userToken w then w1 else header_sync env w1)"

subsection \<open>AsyncStorage\<close>

definition getItem :: "env \<Rightarrow> string \<Rightarrow> world \<Rightarrow> (js_error + string option) \<times> world" where
  "getItem env k w =
     (let w1 = emit (GetItem k) w
      in case getItem_error env k of
           Some e \<Rightarrow> (Inl e, w1)
         | None \<Rightarrow> (Inr (storage w1 k), w1))"

text \<open>\<^verbatim>\<open>setItem\<close> stores strings only: a value that is \<^verbatim>\<open>undefined\<close> is refused
  with the error \<open>invalid_value\<close> of the environment.\<close>

definition setItem :: "env \<Rightarrow> string \<Rightarrow> string option \<Rightarrow> world \<Rightarrow> (js_error + unit) \<times> world" where
  "setItem env k v w =
     (let w1 = emit (SetItem k v) w
      in case v of
           None \<Rightarrow> (Inl (invalid_value env), w1)
         | Some s \<Rightarrow>
             (case setItem_error env k of
                Some e \<Rightarrow> (Inl e, w1)
              | None \<Rightarrow> (Inr (), w1\<lparr>storage := (storage w1)(k \<mapsto> s)\<rparr>)))"

definition removeItem :: "env \<Rightarrow> string \<Rightarrow> world \<Rightarrow> (js_error + unit) \<times> world" where
  "removeItem env k w =
     (let w1 = emit (RemoveItem k) w
      in case removeItem_error env k of
           Some e \<Rightarrow> (Inl e, w1)
         | None \<Rightarrow> (Inr (), w1\<lparr>storage := (storage w1)(k := None)\<rparr>))"

text \<open>\<^verbatim>\<open>JSON.stringify(v)\<close> is \<^verbatim>\<open>undefined\<close> for \<^verbatim>\<open>undefined\<close> and a string
  for every other value.\<close>

definition stringify :: "env \<Rightarrow> jsval \<Rightarrow> string option" where
  "stringify env v = (if v = JUndefined then None else Some (JSON_stringify env v))"

section \<open>signIn\<close>

definition RESPONSE_TYPE :: string where
  "RESPONSE_TYPE = ''token''"

definition join :: "string list \<Rightarrow> string \<Rightarrow> string" where
  "join xs sep = (case xs of [] \<Rightarrow> [] | x # rest \<Rightarrow> foldl (\<lambda>acc y. acc @ sep @ y) x rest)"

text \<open>\<^verbatim>\<open>encodeURI\<close> on the characters of the scope list: letters and the colon are
  kept, a space is escaped.\<close>

definition encodeURI :: "string \<Rightarrow> string" where
  "encodeURI s = concat (map (\<lambda>c. if c = CHR '' '' then ''%20'' else [c]) s)"

definition SCOPE :: string where
  "SCOPE = encodeURI (join [''openid'', ''user:read:email'', ''user:read:follows''] '' '')"

definition authUrl :: "env \<Rightarrow> string" where
  "authUrl env =
     authorization @ ''?client_id='' @ CLIENT_ID env
       @ ''&redirect_uri='' @ makeRedirectUri env
       @ ''&response_type='' @ RESPONSE_TYPE
       @ ''&scope='' @ SCOPE
       @ ''&force_verify='' @ ''true''
       @ ''&state='' @ generateRandom env 30"

text \<open>The inner \<^verbatim>\<open>try\<close> block, lines 122 to 136.\<close>

definition signIn_profile :: "env \<Rightarrow> StartAsyncResponse \<Rightarrow> world \<Rightarrow> (js_error + unit) \<times> world" where
  "signIn_profile env response w =
     (let w1 = emit (ApiGet ''/users''
                  [(''Client-Id'', CLIENT_ID env),
                   (''Authorization'', ''Bearer '' @ access_token (params response))]) w
      in case api_get env of
           Inl e \<Rightarrow> (Inl e, w1)
         | Inr data \<Rightarrow>
             (case get_prop data ''data'' of
                None \<Rightarrow> (Inl (type_error env), w1)
              | Some d \<Rightarrow>
                  (case index0 d of
                     None \<Rightarrow> (Inl (type_error env), w1)
                   | Some u \<Rightarrow>
                       (let w2 = setUser u w1;
                            w3 = setUserToken env (access_token (params response)) w2
                        in case setItem env KEYS_TOKEN (Some (access_token (params response))) w3 of
                             (Inl e, w4) \<Rightarrow> (Inl e, w4)
                           | (Inr _, w4) \<Rightarrow> setItem env KEYS_USER (stringify env u) w4))))"

text \<open>The outer \<^verbatim>\<open>try\<close> block, lines 70 to 144. The comparison of
  \<^verbatim>\<open>response.params.state\<close> with \<open>STATE\<close> is commented out in the source.\<close>

definition signIn_try :: "env \<Rightarrow> world \<Rightarrow> (js_error + unit) \<times> world" where
  "signIn_try env w =
     (let w1 = setIsLoggingIn True w;
          w2 = emit (StartAsync (authUrl env)) w1
      in case startAsync env of
           Inl e \<Rightarrow> (Inl e, w2)
         | Inr response \<Rightarrow>
             if type response = ''success'' then
               (let w3 = set_header ''Authorization''
                           (''Bearer '' @ access_token (params response)) w2
                in case signIn_profile env response w3 of
                     (Inl e, w4) \<Rightarrow> (Inl (new_Error_of e), w4)
                   | (Inr r, w4) \<Rightarrow> (Inr r, w4))
             else (Inl (new_Error ''Access denied''), emit (ConsoleLog ''error'') w2))"

text \<open>The whole function: the outer \<^verbatim>\<open>catch\<close> wraps the error again, and
  \<^verbatim>\<open>finally\<close> resets the flag.\<close>

definition signIn :: "env \<Rightarrow> world \<Rightarrow> (js_error + unit) \<times> world" where
  "signIn env w =
     (case signIn_try env w of
        (Inl error, w1) \<Rightarrow> (Inl (new_Error_of error), setIsLoggingIn False w1)
      | (Inr r, w1) \<Rightarrow> (Inr r, setIsLoggingIn False w1))"

section \<open>signOut\<close>

text \<open>The \<^verbatim>\<open>try\<close> block, lines 157 to 169; its value is the outcome of the
  revocation.\<close>

definition signOut_try :: "env \<Rightarrow> world \<Rightarrow> js_error option \<times> world" where
  "signOut_try env w =
     (let w1 = setIsLoggingOut True w;
          w2 = emit (RevokeAsync (userToken w) (CLIENT_ID env) revocation) w1
      in (revokeAsync env, w2))"

text \<open>The \<^verbatim>\<open>finally\<close> block, lines 172 to 183.\<close>

definition signOut_finally :: "env \<Rightarrow> world \<Rightarrow> (js_error + unit) \<times> world" where
  "signOut_finally env w =
     (let w1 = setUser (JObj []) w;
          w2 = setUserToken env [] w1;
          w3 = delete_header ''Authorization'' w2
      in case removeItem env KEYS_TOKEN w3 of
           (Inl e, w4) \<Rightarrow> (Inl e, w4)
         | (Inr _, w4) \<Rightarrow>
             (case removeItem env KEYS_USER w4 of
                (Inl e, w5) \<Rightarrow> (Inl e, w5)
              | (Inr _, w5) \<Rightarrow> (Inr (), setIsLoggingOut False w5)))"

text \<open>The empty \<^verbatim>\<open>catch\<close> drops the error of the revocation.\<close>

definition signOut :: "env \<Rightarrow> world \<Rightarrow> (js_error + unit) \<times> world" where
  "signOut env w =
     (case signOut_try env w of
        (Some error, w1) \<Rightarrow> signOut_finally env w1
      | (None, w1) \<Rightarrow> signOut_finally env w1)"

section \<open>Restoring the session at startup\<close>

text \<open>Lines 202 to 205: the two reads and \<^verbatim>\<open>JSON.parse\<close>. An absent or empty
  entry is falsy and gives \<^verbatim>\<open>null\<close>.\<close>

definition startup_read :: "env \<Rightarrow> world \<Rightarrow> (js_error + string option \<times> jsval) \<times> world" where
  "startup_read env w =
     (case getItem env KEYS_TOKEN w of
        (Inl e, w1) \<Rightarrow> (Inl e, w1)
      | (Inr storagedToken, w1) \<Rightarrow>
          (case getItem env KEYS_USER w1 of
             (Inl e, w2) \<Rightarrow> (Inl e, w2)
           | (Inr storagedUser, w2) \<Rightarrow>
               (case (case storagedUser of
                        None \<Rightarrow> Inr JNull
                      | Some s \<Rightarrow> if s = [] then Inr JNull else JSON_parse env s) of
                  Inl e \<Rightarrow> (Inl e, w2)
                | Inr userLogged \<Rightarrow> (Inr (storagedToken, userLogged), w2))))"

text \<open>The \<^verbatim>\<open>try\<close> block, lines 210 to 222.\<close>

definition startup_validate :: "env \<Rightarrow> string \<Rightarrow> jsval \<Rightarrow> world \<Rightarrow> (js_error + unit) \<times> world" where
  "startup_validate env storagedToken userLogged w =
     (let w1 = emit (AxiosGet validate_url [(''Authorization'', ''OAuth '' @ storagedToken)]) w
      in case axios_get env of
           Inl e \<Rightarrow> (Inl e, w1)
         | Inr data \<Rightarrow>
             (case get_prop data ''login'' of
                None \<Rightarrow> (Inl (type_error env), w1)
              | Some login \<Rightarrow>
                  if strict_eq login (opt_prop userLogged ''login'')
                  then (Inr (), setUser userLogged (setUserToken env storagedToken w1))
                  else (Inr (), w1)))"

text \<open>The \<^verbatim>\<open>catch\<close> block, lines 224 to 228.\<close>

definition startup_catch :: "env \<Rightarrow> world \<Rightarrow> (js_error + unit) \<times> world" where
  "startup_catch env w =
     (let w1 = setUserToken env [] w;
          w2 = setUser (JObj []) w1
      in case removeItem env KEYS_TOKEN w2 of
           (Inl e, w3) \<Rightarrow> (Inl e, w3)
         | (Inr _, w3) \<Rightarrow> removeItem env KEYS_USER w3)"

text \<open>The asynchronous function of the second effect, lines 201 to 233.\<close>

definition startup :: "env \<Rightarrow> world \<Rightarrow> (js_error + unit) \<times> world" where
  "startup env w =
     (case startup_read env w of
        (Inl e, w1) \<Rightarrow> (Inl e, w1)
      | (Inr (storagedToken, userLogged), w1) \<Rightarrow>
          (case storagedToken of
             None \<Rightarrow> (Inr (), w1)
           | Some tok \<Rightarrow>
               if tok = [] then (Inr (), w1)
               else
                 (let w2 = setIsLoggingIn True w1
                  in case (case startup_validate env tok userLogged w2 of
                             (Inl error, w3) \<Rightarrow> startup_catch env w3
                           | (Inr r, w3) \<Rightarrow> (Inr r, w3)) of
                       (res, w4) \<Rightarrow> (res, setIsLoggingIn False w4))))"

text \<open>The component when it mounts, over a given content of the storage: the initial
  values of the four cells, then the two effects in their order.\<close>

definition initial_world :: "(string \<rightharpoonup> string) \<Rightarrow> world" where
  "initial_world stored =
     \<lparr>isLoggingOut = False, isLoggingIn = False, user = JObj [], userToken = [],
      headers = Map.empty, storage = stored, trace = []\<rparr>"

definition AuthProvider :: "env \<Rightarrow> (string \<rightharpoonup> string) \<Rightarrow> (js_error + unit) \<times> world" where
  "AuthProvider env stored = startup env (header_sync env (initial_world stored))"

section \<open>Presence of the session\<close>

text \<open>The cleared user is \<^verbatim>\<open>{}\<close> and the cleared token is the empty string, which
  is also what the header effect tests. A user is present when it is an object with at
  least one property.\<close>

definition user_present :: "jsval \<Rightarrow> bool" where
  "user_present u = (case u of JObj fs \<Rightarrow> fs \<noteq> [] | _ \<Rightarrow> False)"

definition token_present :: "string \<Rightarrow> bool" where
  "token_present t = (t \<noteq> [])"

definition session_coherent :: "world \<Rightarrow> bool" where
  "session_coherent w = (user_present (user w) = token_present (userToken w))"

section \<open>Sample runs\<close>

text \<open>A concrete environment in which every external call succeeds, used to run the
  functions above on concrete inputs. The two JSON functions of the sample are defined
  on the one record they meet.\<close>

definition sample_user :: jsval where
  "sample_user =
     JObj [(''id'', JStr ''42''), (''login'', JStr ''alice''), (''display_name'', JStr ''Alice''),
           (''email'', JStr ''alice@example.org''),
           (''profile_image_url'', JStr ''https://example.org/alice.png'')]"

definition sample_user_json :: string where
  "sample_user_json = ''{id:42,login:alice,display_name:Alice}''"

definition sample_stringify :: "jsval \<Rightarrow> string" where
  "sample_stringify v = (if v = sample_user then sample_user_json else ''null'')"

definition sample_parse :: "string \<Rightarrow> js_error + jsval" where
  "sample_parse s =
     (if s = sample_user_json then Inr sample_user
      else if s = ''null'' then Inr JNull
      else Inl (JsError ''SyntaxError'' ''JSON Parse error''))"

definition sample_response :: StartAsyncResponse where
  "sample_response =
     \<lparr>params = \<lparr>access_token = ''tok'', scope = ''openid'', state = ''forged'',
                token_type = ''bearer''\<rparr>,
      type = ''success'', url = ''exp://callback''\<rparr>"

definition storage_failure :: js_error where
  "storage_failure = JsError ''Error'' ''Failed to access the storage''"

definition request_failure :: js_error where
  "request_failure = JsError ''Error'' ''Request failed with status code 401''"

definition sample_env :: env where
  "sample_env =
     \<lparr>CLIENT_ID = ''client'', makeRedirectUri = ''https://auth.expo.io/app'',
      generateRandom = (\<lambda>n. replicate n (CHR ''x'')),
      startAsync = Inr sample_response,
      api_get = Inr (JObj [(''data'', JArr [sample_user])]),
      revokeAsync = None,
      axios_get = Inr (JObj [(''login'', JStr ''alice'')]),
      getItem_error = (\<lambda>k. None), setItem_error = (\<lambda>k. None),
      removeItem_error = (\<lambda>k. None),
      invalid_value = JsError ''Error'' ''Passing undefined as value is not supported'',
      type_error = JsError ''TypeError'' ''undefined is not an object'',
      JSON_stringify = sample_stringify, JSON_parse = sample_parse\<rparr>"

text \<open>The component after it has mounted over an empty storage, and after a sign-in
  in the sample environment.\<close>

definition fresh_world :: world where
  "fresh_world = header_sync sample_env (initial_world Map.empty)"

definition signed_in_world :: world where
  "signed_in_world = snd (signIn sample_env fresh_world)"

text \<open>A storage that holds a session.\<close>

definition stored_session :: "string \<rightharpoonup> string" where
  "stored_session = [KEYS_TOKEN \<mapsto> ''tok'', KEYS_USER \<mapsto> sample_user_json]"

definition mounted_world :: world where
  "mounted_world = header_sync sample_env (initial_world stored_session)"

text \<open>Environments in which one call fails.\<close>

definition env_denied :: env where
  "env_denied = sample_env\<lparr>startAsync := Inr (sample_response\<lparr>type := ''dismiss''\<rparr>)\<rparr>"

definition env_profile_fails :: env where
  "env_profile_fails = sample_env\<lparr>api_get := Inl request_failure\<rparr>"

definition env_user_write_fails :: env where
  "env_user_write_fails =
     sample_env\<lparr>setItem_error := (\<lambda>k. if k = KEYS_USER then Some storage_failure else None)\<rparr>"

definition env_empty_token :: env where
  "env_empty_token =
     sample_env\<lparr>startAsync := Inr (sample_response\<lparr>params := (params sample_response)\<lparr>access_token := []\<rparr>\<rparr>)\<rparr>"

definition env_no_profile :: env where
  "env_no_profile = sample_env\<lparr>api_get := Inr (JObj [(''data'', JArr [])])\<rparr>"

definition env_empty_profile :: env where
  "env_empty_profile = sample_env\<lparr>api_get := Inr (JObj [(''data'', JArr [JObj []])])\<rparr>"

text \<open>A validation response without a \<^verbatim>\<open>login\<close>, and a storage that holds a token
  and no user.\<close>

definition env_no_login :: env where
  "env_no_login = sample_env\<lparr>axios_get := Inr (JObj [(''client_id'', JStr ''client'')])\<rparr>"

definition token_only_session :: "string \<rightharpoonup> string" where
  "token_only_session = [KEYS_TOKEN \<mapsto> ''tok'']"

definition env_removal_fails :: env where
  "env_removal_fails =
     sample_env\<lparr>removeItem_error := (\<lambda>k. if k = KEYS_TOKEN then Some storage_failure else None)\<rparr>"

definition env_revocation_fails :: env where
  "env_revocation_fails = sample_env\<lparr>revokeAsync := Some request_failure\<rparr>"

definition env_validation_fails :: env where
  "env_validation_fails = sample_env\<lparr>axios_get := Inl request_failure\<rparr>"

definition env_validation_and_removal_fail :: env where
  "env_validation_and_removal_fail = env_removal_fails\<lparr>axios_get := Inl request_failure\<rparr>"

section \<open>Unfolding the steps\<close>

lemmas step_defs = emit_def setIsLoggingIn_def setIsLoggingOut_def setUser_def setUserToken_def
  set_header_def delete_header_def header_sync_def getItem_def setItem_def removeItem_def

section \<open>What each step changes\<close>

lemma keys_distinct: "KEYS_TOKEN \<noteq> KEYS_USER"
  by (simp add: KEYS_TOKEN_def KEYS_USER_def)

lemma emit_frame:
  "user (emit e w) = user w" "userToken (emit e w) = userToken w"
  "isLoggingIn (emit e w) = isLoggingIn w" "isLoggingOut (emit e w) = isLoggingOut w"
  "headers (emit e w) = headers w" "storage (emit e w) = storage w"
  "trace (emit e w) = trace w @ [e]"
  by (simp_all add: emit_def)

lemma setIsLoggingIn_frame:
  "user (setIsLoggingIn b w) = user w" "userToken (setIsLoggingIn b w) = userToken w"
  "isLoggingIn (setIsLoggingIn b w) = b" "isLoggingOut (setIsLoggingIn b w) = isLoggingOut w"
  "headers (setIsLoggingIn b w) = headers w" "storage (setIsLoggingIn b w) = storage w"
  "trace (setIsLoggingIn b w) = trace w @ [SetIsLoggingIn b]"
  by (simp_all add: setIsLoggingIn_def emit_def)

lemma setIsLoggingOut_frame:
  "user (setIsLoggingOut b w) = user w" "userToken (setIsLoggingOut b w) = userToken w"
  "isLoggingIn (setIsLoggingOut b w) = isLoggingIn w" "isLoggingOut (setIsLoggingOut b w) = b"
  "headers (setIsLoggingOut b w) = headers w" "storage (setIsLoggingOut b w) = storage w"
  "trace (setIsLoggingOut b w) = trace w @ [SetIsLoggingOut b]"
  by (simp_all add: setIsLoggingOut_def emit_def)

lemma setUser_frame:
  "user (setUser u w) = u" "userToken (setUser u w) = userToken w"
  "isLoggingIn (setUser u w) = isLoggingIn w" "isLoggingOut (setUser u w) = isLoggingOut w"
  "headers (setUser u w) = headers w" "storage (setUser u w) = storage w"
  "trace (setUser u w) = trace w @ [SetUser u]"
  by (simp_all add: setUser_def emit_def)

lemma set_header_frame:
  "user (set_header k v w) = user w" "userToken (set_header k v w) = userToken w"
  "isLoggingIn (set_header k v w) = isLoggingIn w"
  "isLoggingOut (set_header k v w) = isLoggingOut w"
  "headers (set_header k v w) = (headers w)(k \<mapsto> v)" "storage (set_header k v w) = storage w"
  "trace (set_header k v w) = trace w"
  by (simp_all add: set_header_def)

lemma delete_header_frame:
  "user (delete_header k w) = user w" "userToken (delete_header k w) = userToken w"
  "isLoggingIn (delete_header k w) = isLoggingIn w"
  "isLoggingOut (delete_header k w) = isLoggingOut w"
  "headers (delete_header k w) = (headers w)(k := None)" "storage (delete_header k w) = storage w"
  "trace (delete_header k w) = trace w"
  by (simp_all add: delete_header_def)

lemma setUserToken_frame:
  "user (setUserToken env t w) = user w" "userToken (setUserToken env t w) = t"
  "isLoggingIn (setUserToken env t w) = isLoggingIn w"
  "isLoggingOut (setUserToken env t w) = isLoggingOut w"
  "storage (setUserToken env t w) = storage w"
  "trace (setUserToken env t w) = trace w @ [SetUserToken t]"
  "headers (setUserToken env t w) ''Authorization'' =
     (if t = userToken w \<or> t = [] then headers w ''Authorization'' else Some (''Bearer '' @ t))"
  by (simp_all add: setUserToken_def header_sync_def set_header_def emit_def Let_def)

lemma getItem_frame:
  "user (snd (getItem env k w)) = user w" "userToken (snd (getItem env k w)) = userToken w"
  "isLoggingIn (snd (getItem env k w)) = isLoggingIn w"
  "isLoggingOut (snd (getItem env k w)) = isLoggingOut w"
  "headers (snd (getItem env k w)) = headers w" "storage (snd (getItem env k w)) = storage w"
  "trace (snd (getItem env k w)) = trace w @ [GetItem k]"
  "fst (getItem env k w) = (case getItem_error env k of Some e \<Rightarrow> Inl e | None \<Rightarrow> Inr (storage w k))"
  by (simp_all add: getItem_def emit_def Let_def split: option.splits)

lemma setItem_frame:
  "user (snd (setItem env k v w)) = user w" "userToken (snd (setItem env k v w)) = userToken w"
  "isLoggingIn (snd (setItem env k v w)) = isLoggingIn w"
  "isLoggingOut (snd (setItem env k v w)) = isLoggingOut w"
  "headers (snd (setItem env k v w)) = headers w"
  "trace (snd (setItem env k v w)) = trace w @ [SetItem k v]"
  by (simp_all add: setItem_def emit_def Let_def split: option.splits)

lemma removeItem_frame:
  "user (snd (removeItem env k w)) = user w" "userToken (snd (removeItem env k w)) = userToken w"
  "isLoggingIn (snd (removeItem env k w)) = isLoggingIn w"
  "isLoggingOut (snd (removeItem env k w)) = isLoggingOut w"
  "headers (snd (removeItem env k w)) = headers w"
  "trace (snd (removeItem env k w)) = trace w @ [RemoveItem k]"
  "fst (removeItem env k w) = (case removeItem_error env k of Some e \<Rightarrow> Inl e | None \<Rightarrow> Inr ())"
  "storage (snd (removeItem env k w)) =
     (case removeItem_error env k of Some e \<Rightarrow> storage w | None \<Rightarrow> (storage w)(k := None))"
  by (simp_all add: removeItem_def emit_def Let_def split: option.splits)

lemmas frames = emit_frame setIsLoggingIn_frame setIsLoggingOut_frame setUser_frame
  set_header_frame delete_header_frame setUserToken_frame getItem_frame setItem_frame
  removeItem_frame

lemma header_sync_frame:
  "user (header_sync env w) = user w" "userToken (header_sync env w) = userToken w"
  "isLoggingIn (header_sync env w) = isLoggingIn w"
  "isLoggingOut (header_sync env w) = isLoggingOut w"
  "storage (header_sync env w) = storage w" "trace (header_sync env w) = trace w"
  "headers (header_sync env w) ''Authorization'' =
     (if userToken w = [] then headers w ''Authorization'' else Some (''Bearer '' @ userToken w))"
  by (simp_all add: header_sync_def set_header_def Let_def)

lemma setItem_stores:
  "setItem_error env k = None \<Longrightarrow> fst (setItem env k (Some s) w) = Inr ()"
  "setItem_error env k = None \<Longrightarrow> storage (snd (setItem env k (Some s) w)) = (storage w)(k \<mapsto> s)"
  "setItem_error env k = Some e \<Longrightarrow> fst (setItem env k (Some s) w) = Inl e"
  "setItem_error env k = Some e \<Longrightarrow> storage (snd (setItem env k (Some s) w)) = storage w"
  "fst (setItem env k None w) = Inl (invalid_value env)"
  "storage (snd (setItem env k None w)) = storage w"
  by (simp_all add: setItem_def emit_def Let_def)

section \<open>The sample data\<close>

lemma fresh_world_fields:
  "user fresh_world = JObj []" "userToken fresh_world = []"
  "isLoggingIn fresh_world = False" "isLoggingOut fresh_world = False"
  "headers fresh_world ''Authorization'' = None" "storage fresh_world = Map.empty"
  "trace fresh_world = []"
  by (simp_all add: fresh_world_def initial_world_def frames header_sync_frame)

lemma mounted_world_fields:
  "user mounted_world = JObj []" "userToken mounted_world = []"
  "isLoggingIn mounted_world = False" "isLoggingOut mounted_world = False"
  "headers mounted_world ''Authorization'' = None" "storage mounted_world = stored_session"
  "trace mounted_world = []"
  by (simp_all add: mounted_world_def initial_world_def frames header_sync_frame)

lemma stored_session_fields:
  "stored_session KEYS_TOKEN = Some ''tok''" "stored_session KEYS_USER = Some sample_user_json"
  "sample_user_json \<noteq> []"
  using keys_distinct by (simp_all add: stored_session_def sample_user_json_def)

lemma sample_env_fields:
  "startAsync sample_env = Inr sample_response"
  "api_get sample_env = Inr (JObj [(''data'', JArr [sample_user])])"
  "axios_get sample_env = Inr (JObj [(''login'', JStr ''alice'')])"
  "revokeAsync sample_env = None" "CLIENT_ID sample_env = ''client''"
  "getItem_error sample_env k = None" "setItem_error sample_env k = None"
  "removeItem_error sample_env k = None"
  "JSON_stringify sample_env sample_user = sample_user_json"
  "JSON_parse sample_env sample_user_json = Inr sample_user"
  by (simp_all add: sample_env_def sample_stringify_def sample_parse_def)

lemma sample_response_fields:
  "type sample_response = ''success''" "access_token (params sample_response) = ''tok''"
  "state (params sample_response) = ''forged''"
  by (simp_all add: sample_response_def)

lemma sample_profile:
  "get_prop (JObj [(''data'', JArr [sample_user])]) ''data'' = Some (JArr [sample_user])"
  "index0 (JArr [sample_user]) = Some sample_user"
  "sample_user \<noteq> JUndefined" "user_present sample_user"
  "opt_prop sample_user ''login'' = JStr ''alice''"
  "get_prop (JObj [(''login'', JStr ''alice'')]) ''login'' = Some (JStr ''alice'')"
  by (simp_all add: own_prop_def opt_prop_def sample_user_def user_present_def)

section \<open>The paths of signIn\<close>

text \<open>The path on which every call succeeds.\<close>

lemma signIn_commit:
  assumes "startAsync env = Inr response" and "type response = ''success''"
    and "api_get env = Inr data" and "get_prop data ''data'' = Some d" and "index0 d = Some u"
    and "u \<noteq> JUndefined"
    and "setItem_error env KEYS_TOKEN = None" and "setItem_error env KEYS_USER = None"
  shows "fst (signIn env w) = Inr ()"
    and "user (snd (signIn env w)) = u"
    and "userToken (snd (signIn env w)) = access_token (params response)"
    and "storage (snd (signIn env w)) KEYS_TOKEN = Some (access_token (params response))"
    and "storage (snd (signIn env w)) KEYS_USER = Some (JSON_stringify env u)"
    and "isLoggingIn (snd (signIn env w)) = False"
    and "isLoggingOut (snd (signIn env w)) = isLoggingOut w"
    and "headers (snd (signIn env w)) ''Authorization''
           = Some (''Bearer '' @ access_token (params response))"
  using assms keys_distinct
  by (simp_all add: signIn_def signIn_try_def signIn_profile_def Let_def stringify_def
      case_prod_beta frames setItem_stores)

text \<open>The path on which the write of the user entry is rejected.\<close>

lemma signIn_user_write_rejected:
  assumes "startAsync env = Inr response" and "type response = ''success''"
    and "api_get env = Inr data" and "get_prop data ''data'' = Some d" and "index0 d = Some u"
    and "u \<noteq> JUndefined"
    and "setItem_error env KEYS_TOKEN = None" and "setItem_error env KEYS_USER = Some e"
  shows "fst (signIn env w) = Inl (new_Error_of (new_Error_of e))"
    and "user (snd (signIn env w)) = u"
    and "userToken (snd (signIn env w)) = access_token (params response)"
    and "storage (snd (signIn env w)) KEYS_TOKEN = Some (access_token (params response))"
    and "storage (snd (signIn env w)) KEYS_USER = storage w KEYS_USER"
  using assms keys_distinct
  by (simp_all add: signIn_def signIn_try_def signIn_profile_def Let_def stringify_def
      case_prod_beta frames setItem_stores)

text \<open>The path on which the first element of the profile list is \<^verbatim>\<open>undefined\<close>:
  the session is in memory before the write of the user entry is refused.\<close>

lemma signIn_undefined_profile:
  assumes "startAsync env = Inr response" and "type response = ''success''"
    and "api_get env = Inr data" and "get_prop data ''data'' = Some d"
    and "index0 d = Some JUndefined" and "setItem_error env KEYS_TOKEN = None"
  shows "fst (signIn env w) = Inl (new_Error_of (new_Error_of (invalid_value env)))"
    and "user (snd (signIn env w)) = JUndefined"
    and "userToken (snd (signIn env w)) = access_token (params response)"
  using assms
  by (simp_all add: signIn_def signIn_try_def signIn_profile_def Let_def stringify_def
      case_prod_beta frames setItem_stores)

text \<open>On every path the inner block leaves the user and the token alone or writes
  both, and never touches the flags.\<close>

lemma signIn_profile_session:
  "(user (snd (signIn_profile env response w)) = user w
      \<and> userToken (snd (signIn_profile env response w)) = userToken w)
   \<or> (\<exists>data d u. api_get env = Inr data \<and> get_prop data ''data'' = Some d \<and> index0 d = Some u
         \<and> user (snd (signIn_profile env response w)) = u
         \<and> userToken (snd (signIn_profile env response w)) = access_token (params response))"
  by (simp add: signIn_profile_def Let_def case_prod_beta frames
      split: option.splits sum.splits)

lemma signIn_profile_flags:
  "isLoggingIn (snd (signIn_profile env response w)) = isLoggingIn w"
  "isLoggingOut (snd (signIn_profile env response w)) = isLoggingOut w"
  by (simp_all add: signIn_profile_def Let_def case_prod_beta frames
      split: option.splits sum.splits)

text \<open>\<open>isLoggingIn\<close> is true when the \<^verbatim>\<open>try\<close> block of \<open>signIn\<close> is left, on
  every path, and false after the \<^verbatim>\<open>finally\<close> block.\<close>

lemma signIn_flag_every_path:
  "isLoggingIn (snd (signIn_try env w)) = True" "isLoggingIn (snd (signIn env w)) = False"
  by (simp_all add: signIn_def signIn_try_def Let_def case_prod_beta frames signIn_profile_flags
      split: option.splits sum.splits)

lemma signIn_session:
  "(user (snd (signIn env w)) = user w \<and> userToken (snd (signIn env w)) = userToken w)
   \<or> (\<exists>response data d u. startAsync env = Inr response \<and> type response = ''success''
         \<and> api_get env = Inr data \<and> get_prop data ''data'' = Some d \<and> index0 d = Some u
         \<and> user (snd (signIn env w)) = u
         \<and> userToken (snd (signIn env w)) = access_token (params response))"
proof (cases "startAsync env")
  case (Inl e)
  then show ?thesis
    by (simp add: signIn_def signIn_try_def Let_def frames)
next
  case (Inr response)
  show ?thesis
  proof (cases "type response = ''success''")
    case False
    then show ?thesis
      using Inr by (simp add: signIn_def signIn_try_def Let_def frames)
  next
    case True
    define w3 where "w3 = set_header ''Authorization''
        (''Bearer '' @ access_token (params response))
        (emit (StartAsync (authUrl env)) (setIsLoggingIn True w))"
    have same: "user w3 = user w \<and> userToken w3 = userToken w"
      by (simp add: w3_def frames)
    have run: "user (snd (signIn env w)) = user (snd (signIn_profile env response w3))
        \<and> userToken (snd (signIn env w)) = userToken (snd (signIn_profile env response w3))"
      using Inr True
      by (simp add: signIn_def signIn_try_def w3_def Let_def case_prod_beta frames
          split: sum.splits)
    show ?thesis
      using signIn_profile_session [of env response w3] Inr True same run by auto
  qed
qed

section \<open>The paths of signOut\<close>

lemma signOut_result:
  "fst (signOut env w) =
     (case removeItem_error env KEYS_TOKEN of Some e \<Rightarrow> Inl e
      | None \<Rightarrow> (case removeItem_error env KEYS_USER of Some e \<Rightarrow> Inl e | None \<Rightarrow> Inr ()))"
  by (simp add: signOut_def signOut_try_def signOut_finally_def Let_def case_prod_beta frames
      split: option.splits sum.splits)

lemma signOut_session:
  "user (snd (signOut env w)) = JObj []" "userToken (snd (signOut env w)) = []"
  "headers (snd (signOut env w)) ''Authorization'' = None"
  "isLoggingIn (snd (signOut env w)) = isLoggingIn w"
  by (simp_all add: signOut_def signOut_try_def signOut_finally_def Let_def case_prod_beta frames
      split: option.splits sum.splits)

lemma signOut_storage:
  "storage (snd (signOut env w)) =
     (case removeItem_error env KEYS_TOKEN of Some e \<Rightarrow> storage w
      | None \<Rightarrow> (case removeItem_error env KEYS_USER of Some e \<Rightarrow> (storage w)(KEYS_TOKEN := None)
                 | None \<Rightarrow> (storage w)(KEYS_TOKEN := None, KEYS_USER := None)))"
  "isLoggingOut (snd (signOut env w)) =
     (case removeItem_error env KEYS_TOKEN of Some e \<Rightarrow> True
      | None \<Rightarrow> (case removeItem_error env KEYS_USER of Some e \<Rightarrow> True | None \<Rightarrow> False))"
  "trace (snd (signOut env w)) =
     trace w @ [SetIsLoggingOut True, RevokeAsync (userToken w) (CLIENT_ID env) revocation,
                SetUser (JObj []), SetUserToken [], RemoveItem KEYS_TOKEN]
       @ (case removeItem_error env KEYS_TOKEN of Some e \<Rightarrow> []
          | None \<Rightarrow> RemoveItem KEYS_USER #
              (case removeItem_error env KEYS_USER of Some e \<Rightarrow> [] | None \<Rightarrow> [SetIsLoggingOut False]))"
  by (simp_all add: signOut_def signOut_try_def signOut_finally_def Let_def case_prod_beta frames
      split: option.splits sum.splits)

lemma signOut_revocation_irrelevant:
  "signOut (env\<lparr>revokeAsync := r\<rparr>) w = signOut env w"
  by (simp add: signOut_def signOut_try_def signOut_finally_def step_defs Let_def
      cong: sum.case_cong option.case_cong prod.case_cong if_cong split: option.splits)

lemma signed_in_world_fields:
  "user signed_in_world = sample_user" "userToken signed_in_world = ''tok''"
  "isLoggingIn signed_in_world = False" "isLoggingOut signed_in_world = False"
  "headers signed_in_world ''Authorization'' = Some ''Bearer tok''"
  "storage signed_in_world KEYS_TOKEN = Some ''tok''"
  "storage signed_in_world KEYS_USER = Some sample_user_json"
  using signIn_commit [OF sample_env_fields(1) sample_response_fields(1) sample_env_fields(2)
      sample_profile(1,2,3) sample_env_fields(7) sample_env_fields(7), of fresh_world]
  by (simp_all add: signed_in_world_def sample_response_fields sample_env_fields
      fresh_world_fields)

section \<open>signIn: the denied and the failed paths\<close>

text \<open>
  Claim C4. When the authorization flow returns a result whose type is not
  \<^verbatim>\<open>"success"\<close>, \<open>signIn\<close> rejects with the access-denied error: the
  \<^verbatim>\<open>Error("Access denied")\<close> of line 143, wrapped once by the outer
  \<^verbatim>\<open>catch\<close>, so that its message reads \<^verbatim>\<open>Error: Access denied\<close>. Nothing is
  written to the storage: the storage is unchanged and the run makes no storage call
  at all. The user and the token in memory are unchanged as well.
\<close>

theorem signIn_access_denied:
  assumes "startAsync env = Inr response" and "type response \<noteq> ''success''"
  shows "fst (signIn env w) = Inl (JsError ''Error'' ''Error: Access denied'')
    \<and> storage (snd (signIn env w)) = storage w
    \<and> user (snd (signIn env w)) = user w
    \<and> userToken (snd (signIn env w)) = userToken w
    \<and> trace (snd (signIn env w)) =
        trace w @ [SetIsLoggingIn True, StartAsync (authUrl env), ConsoleLog ''error'',
                   SetIsLoggingIn False]"
  using assms
  by (simp add: signIn_def signIn_try_def step_defs Let_def new_Error_of_def new_Error_def
      error_toString_def)

text \<open>The theorem at a dismissed authorization flow.\<close>

theorem signIn_access_denied_witness:
  "type (sample_response\<lparr>type := ''dismiss''\<rparr>) \<noteq> ''success''
   \<and> fst (signIn env_denied fresh_world) = Inl (JsError ''Error'' ''Error: Access denied'')
   \<and> storage (snd (signIn env_denied fresh_world)) KEYS_TOKEN = None
   \<and> storage (snd (signIn env_denied fresh_world)) KEYS_USER = None"
proof -
  have a: "startAsync env_denied = Inr (sample_response\<lparr>type := ''dismiss''\<rparr>)"
    by (simp add: env_denied_def sample_env_def)
  have b: "type (sample_response\<lparr>type := ''dismiss''\<rparr>) \<noteq> ''success''"
    by simp
  have c: "storage fresh_world = Map.empty"
    by (simp add: fresh_world_def initial_world_def step_defs Let_def)
  show ?thesis
    using signIn_access_denied [OF a b, of fresh_world] b c by simp
qed

text \<open>
  Claim C5. When the authorization flow succeeds and the profile request is rejected
  with \<open>cause\<close>, \<open>signIn\<close> rejects with the profile-fetch error: \<open>cause\<close> wrapped
  by the inner \<^verbatim>\<open>catch\<close> and again by the outer one, so that its message is
  \<^verbatim>\<open>Error: \<close> followed by \<^verbatim>\<open>String(cause)\<close>. Nothing is written to the storage:
  the storage is unchanged and the run makes no storage call.
\<close>

theorem signIn_profile_fetch_error:
  assumes "startAsync env = Inr response" and "type response = ''success''"
    and "api_get env = Inl cause"
  shows "fst (signIn env w) = Inl (new_Error_of (new_Error_of cause))
    \<and> (error_toString cause \<noteq> [] \<longrightarrow>
         fst (signIn env w) = Inl (JsError ''Error'' (''Error: '' @ error_toString cause)))
    \<and> storage (snd (signIn env w)) = storage w
    \<and> trace (snd (signIn env w)) =
        trace w @ [SetIsLoggingIn True, StartAsync (authUrl env),
                   ApiGet ''/users'' [(''Client-Id'', CLIENT_ID env),
                     (''Authorization'', ''Bearer '' @ access_token (params response))],
                   SetIsLoggingIn False]"
  using assms
  by (simp add: signIn_def signIn_try_def signIn_profile_def step_defs Let_def
      new_Error_of_def new_Error_def error_toString_def)

text \<open>The theorem at a profile request that fails with status 401.\<close>

theorem signIn_profile_fetch_error_witness:
  "type sample_response = ''success''
   \<and> fst (signIn env_profile_fails fresh_world) =
       Inl (JsError ''Error'' ''Error: Error: Request failed with status code 401'')
   \<and> storage (snd (signIn env_profile_fails fresh_world)) KEYS_TOKEN = None
   \<and> storage (snd (signIn env_profile_fails fresh_world)) KEYS_USER = None"
proof -
  have a: "startAsync env_profile_fails = Inr sample_response"
    by (simp add: env_profile_fails_def sample_env_def)
  have b: "type sample_response = ''success''"
    by (simp add: sample_response_def)
  have c: "api_get env_profile_fails = Inl request_failure"
    by (simp add: env_profile_fails_def)
  have d: "storage fresh_world = Map.empty"
    by (simp add: fresh_world_def initial_world_def step_defs Let_def)
  show ?thesis
    using signIn_profile_fetch_error [OF a b c, of fresh_world] b d
    by (simp add: request_failure_def error_toString_def new_Error_of_def new_Error_def)
qed

text \<open>
  Claim C10. When the authorization flow succeeds and the profile request is rejected,
  the process-wide \<^verbatim>\<open>Authorization\<close> header still carries the new bearer token
  after \<open>signIn\<close> has rejected: line 115 sets it before the request and no path
  removes it. The user and the token in memory and the storage are unchanged.
\<close>

theorem signIn_profile_failure_keeps_header:
  assumes "startAsync env = Inr response" and "type response = ''success''"
    and "api_get env = Inl cause"
  shows "headers (snd (signIn env w)) ''Authorization''
           = Some (''Bearer '' @ access_token (params response))
    \<and> user (snd (signIn env w)) = user w
    \<and> userToken (snd (signIn env w)) = userToken w
    \<and> storage (snd (signIn env w)) = storage w"
  using assms
  by (simp add: signIn_def signIn_try_def signIn_profile_def step_defs Let_def)

text \<open>The theorem at the same failing profile request: the header is set although the
  component holds no session.\<close>

theorem signIn_profile_failure_keeps_header_witness:
  "type sample_response = ''success''
   \<and> headers fresh_world ''Authorization'' = None
   \<and> headers (snd (signIn env_profile_fails fresh_world)) ''Authorization'' = Some ''Bearer tok''
   \<and> user (snd (signIn env_profile_fails fresh_world)) = JObj []
   \<and> userToken (snd (signIn env_profile_fails fresh_world)) = []"
proof -
  have a: "startAsync env_profile_fails = Inr sample_response"
    by (simp add: env_profile_fails_def sample_env_def)
  have b: "type sample_response = ''success''"
    by (simp add: sample_response_def)
  have c: "api_get env_profile_fails = Inl request_failure"
    by (simp add: env_profile_fails_def)
  have d: "headers fresh_world ''Authorization'' = None \<and> user fresh_world = JObj []
      \<and> userToken fresh_world = []"
    by (simp add: fresh_world_def initial_world_def step_defs Let_def)
  show ?thesis
    using signIn_profile_failure_keeps_header [OF a b c, of fresh_world] b d
    by (simp add: sample_response_def)
qed

section \<open>signIn: the successful path\<close>

text \<open>
  Claim C1, amended. When the authorization flow returns a success result with a
  non-empty access token, the profile request succeeds with a body whose
  \<^verbatim>\<open>data[0]\<close> is a non-empty object, and both writes to the storage succeed, then
  \<open>signIn\<close> resolves, the user in memory is that first profile record and the token in
  memory is the access token, both are non-empty, the token entry of the storage holds
  the token in memory and the user entry holds the serialised user in memory.
\<close>

theorem signIn_success:
  assumes "startAsync env = Inr response" and "type response = ''success''"
    and "api_get env = Inr data" and "get_prop data ''data'' = Some d" and "index0 d = Some u"
    and "user_present u" and "access_token (params response) \<noteq> []"
    and "setItem_error env KEYS_TOKEN = None" and "setItem_error env KEYS_USER = None"
  shows "fst (signIn env w) = Inr ()
    \<and> user (snd (signIn env w)) = u
    \<and> userToken (snd (signIn env w)) = access_token (params response)
    \<and> user_present (user (snd (signIn env w)))
    \<and> token_present (userToken (snd (signIn env w)))
    \<and> storage (snd (signIn env w)) KEYS_TOKEN = Some (userToken (snd (signIn env w)))
    \<and> storage (snd (signIn env w)) KEYS_USER = stringify env (user (snd (signIn env w)))
    \<and> storage (snd (signIn env w)) KEYS_USER = Some (JSON_stringify env u)"
proof -
  have u: "u \<noteq> JUndefined"
    using assms(6) by (auto simp: user_present_def)
  note c = signIn_commit [OF assms(1-5) u assms(8,9), of w]
  show ?thesis
    using c(1-5) assms(6,7) u by (simp add: token_present_def stringify_def)
qed

text \<open>The theorem at the sample environment, from the freshly mounted component.\<close>

theorem signIn_success_witness:
  "type sample_response = ''success'' \<and> user_present sample_user
   \<and> fst (signIn sample_env fresh_world) = Inr ()
   \<and> user (snd (signIn sample_env fresh_world)) = sample_user
   \<and> userToken (snd (signIn sample_env fresh_world)) = ''tok''
   \<and> storage (snd (signIn sample_env fresh_world)) KEYS_TOKEN = Some ''tok''
   \<and> storage (snd (signIn sample_env fresh_world)) KEYS_USER = Some sample_user_json"
proof -
  have g: "access_token (params sample_response) \<noteq> []"
    by (simp add: sample_response_def)
  show ?thesis
    using signIn_success [OF sample_env_fields(1) sample_response_fields(1) sample_env_fields(2)
        sample_profile(1,2,4) g sample_env_fields(7) sample_env_fields(7), of fresh_world]
      sample_response_fields sample_profile(3,4) sample_env_fields(9)
    by (simp add: stringify_def)
qed

text \<open>
  The claim as stated fails in three ways. In the first run the authorization flow and
  the profile request succeed and the write of the user entry is rejected:
  \<open>signIn\<close> rejects, the session is in memory, and the user entry does not exist.
  In the second run the success result carries an empty access token: \<open>signIn\<close>
  resolves with an empty token in memory. In the third run the first profile record is
  the empty object: \<open>signIn\<close> resolves with an empty user in memory.
\<close>

theorem signIn_persistence_counterexample:
  "startAsync env_user_write_fails = Inr sample_response
   \<and> type sample_response = ''success''
   \<and> api_get env_user_write_fails = Inr (JObj [(''data'', JArr [sample_user])])
   \<and> fst (signIn env_user_write_fails fresh_world)
       = Inl (JsError ''Error'' ''Error: Error: Failed to access the storage'')
   \<and> user (snd (signIn env_user_write_fails fresh_world)) = sample_user
   \<and> userToken (snd (signIn env_user_write_fails fresh_world)) = ''tok''
   \<and> storage (snd (signIn env_user_write_fails fresh_world)) KEYS_TOKEN = Some ''tok''
   \<and> storage (snd (signIn env_user_write_fails fresh_world)) KEYS_USER = None
   \<and> startAsync env_empty_token
       = Inr (sample_response\<lparr>params := (params sample_response)\<lparr>access_token := []\<rparr>\<rparr>)
   \<and> type (sample_response\<lparr>params := (params sample_response)\<lparr>access_token := []\<rparr>\<rparr>)
       = ''success''
   \<and> api_get env_empty_token = Inr (JObj [(''data'', JArr [sample_user])])
   \<and> fst (signIn env_empty_token fresh_world) = Inr ()
   \<and> userToken (snd (signIn env_empty_token fresh_world)) = []
   \<and> \<not> token_present (userToken (snd (signIn env_empty_token fresh_world)))
   \<and> startAsync env_empty_profile = Inr sample_response
   \<and> api_get env_empty_profile = Inr (JObj [(''data'', JArr [JObj []])])
   \<and> fst (signIn env_empty_profile fresh_world) = Inr ()
   \<and> user (snd (signIn env_empty_profile fresh_world)) = JObj []
   \<and> \<not> user_present (user (snd (signIn env_empty_profile fresh_world)))"
proof -
  have a: "startAsync env_user_write_fails = Inr sample_response"
    "api_get env_user_write_fails = Inr (JObj [(''data'', JArr [sample_user])])"
    "setItem_error env_user_write_fails KEYS_TOKEN = None"
    "setItem_error env_user_write_fails KEYS_USER = Some storage_failure"
    using keys_distinct by (simp_all add: env_user_write_fails_def sample_env_fields)
  note r1 = signIn_user_write_rejected [OF a(1) sample_response_fields(1) a(2)
      sample_profile(1,2,3) a(3,4), of fresh_world]
  have b: "startAsync env_empty_token
      = Inr (sample_response\<lparr>params := (params sample_response)\<lparr>access_token := []\<rparr>\<rparr>)"
    "type (sample_response\<lparr>params := (params sample_response)\<lparr>access_token := []\<rparr>\<rparr>)
      = ''success''"
    "api_get env_empty_token = Inr (JObj [(''data'', JArr [sample_user])])"
    "setItem_error env_empty_token k = None" for k
    by (simp_all add: env_empty_token_def sample_env_fields sample_response_fields)
  note r2 = signIn_commit [OF b(1,2,3) sample_profile(1,2,3) b(4) b(4), of fresh_world]
  have c: "startAsync env_empty_profile = Inr sample_response"
    "api_get env_empty_profile = Inr (JObj [(''data'', JArr [JObj []])])"
    "setItem_error env_empty_profile k = None" for k
    by (simp_all add: env_empty_profile_def sample_env_fields)
  have p: "get_prop (JObj [(''data'', JArr [JObj []])]) ''data'' = Some (JArr [JObj []])"
    "index0 (JArr [JObj []]) = Some (JObj [])" "JObj [] \<noteq> JUndefined"
    by (simp_all add: own_prop_def)
  note r3 = signIn_commit [OF c(1) sample_response_fields(1) c(2) p c(3) c(3), of fresh_world]
  have e: "new_Error_of (new_Error_of storage_failure)
      = JsError ''Error'' ''Error: Error: Failed to access the storage''"
    by (simp add: new_Error_of_def new_Error_def error_toString_def storage_failure_def)
  show ?thesis
    using a(1,2) b(1,2,3) c(1,2) r1 r2(1,3) r3(1,2) e sample_response_fields
      fresh_world_fields(6)
    by (simp add: token_present_def user_present_def)
qed

section \<open>signIn: the returned state value\<close>

text \<open>
  Claim C6. Two runs of \<open>signIn\<close> whose authorization results differ only in the
  returned \<^verbatim>\<open>state\<close> parameter have the same outcome: the same result or error,
  the same user and token in memory, the same storage, the same headers and the same
  calls. The returned state is never compared with the generated one, so no run
  rejects because the two differ.
\<close>

theorem signIn_ignores_state:
  "signIn (env\<lparr>startAsync := Inr (response\<lparr>params := (params response)\<lparr>state := a\<rparr>\<rparr>)\<rparr>) w
   = signIn (env\<lparr>startAsync := Inr (response\<lparr>params := (params response)\<lparr>state := b\<rparr>\<rparr>)\<rparr>) w"
  by (simp add: signIn_def signIn_try_def signIn_profile_def step_defs Let_def stringify_def
      authUrl_def cong: sum.case_cong option.case_cong prod.case_cong if_cong)

text \<open>The theorem at the sample response, whose state \<^verbatim>\<open>forged\<close> is not the generated
  one: the run resolves, as the run with the generated state does.\<close>

theorem signIn_ignores_state_witness:
  "state (params sample_response) \<noteq> generateRandom sample_env 30
   \<and> fst (signIn sample_env fresh_world) = Inr ()
   \<and> signIn sample_env fresh_world
       = signIn (sample_env\<lparr>startAsync := Inr (sample_response\<lparr>params :=
           (params sample_response)\<lparr>state := generateRandom sample_env 30\<rparr>\<rparr>)\<rparr>) fresh_world"
proof -
  have a: "sample_env\<lparr>startAsync := Inr (sample_response\<lparr>params :=
      (params sample_response)\<lparr>state := ''forged''\<rparr>\<rparr>)\<rparr> = sample_env"
    by (simp add: sample_env_def sample_response_def)
  have b: "state (params sample_response) \<noteq> generateRandom sample_env 30"
    by (simp add: sample_env_def sample_response_def eval_nat_numeral)
  note c = signIn_commit(1) [OF sample_env_fields(1) sample_response_fields(1)
      sample_env_fields(2) sample_profile(1,2,3) sample_env_fields(7) sample_env_fields(7),
      of fresh_world]
  show ?thesis
    using signIn_ignores_state [where env = sample_env and response = sample_response
        and a = "''forged''" and w = fresh_world and b = "generateRandom sample_env 30"] a b c
    by simp
qed

section \<open>signOut: the teardown and the flag\<close>

text \<open>
  Claim C3, amended. After every run of \<open>signOut\<close>, whether the revocation call
  succeeds or fails, the user in memory is the empty object, the token in memory is the
  empty string and the \<^verbatim>\<open>Authorization\<close> entry is absent from the default headers;
  the outcome of the revocation changes nothing in the run. When both removals from
  the storage succeed, \<open>signOut\<close> resolves and both persisted entries are absent.
\<close>

theorem signOut_teardown:
  "user (snd (signOut env w)) = JObj []
   \<and> userToken (snd (signOut env w)) = []
   \<and> headers (snd (signOut env w)) ''Authorization'' = None
   \<and> signOut (env\<lparr>revokeAsync := r\<rparr>) w = signOut env w
   \<and> (removeItem_error env KEYS_TOKEN = None \<longrightarrow> removeItem_error env KEYS_USER = None \<longrightarrow>
         fst (signOut env w) = Inr ()
         \<and> storage (snd (signOut env w)) KEYS_TOKEN = None
         \<and> storage (snd (signOut env w)) KEYS_USER = None)"
  using keys_distinct
  by (simp add: signOut_session signOut_revocation_irrelevant signOut_result signOut_storage)

text \<open>The theorem at a sign-out, after the sample sign-in, whose revocation call is
  rejected.\<close>

theorem signOut_teardown_witness:
  "revokeAsync env_revocation_fails = Some request_failure
   \<and> user signed_in_world = sample_user
   \<and> storage signed_in_world KEYS_TOKEN = Some ''tok''
   \<and> fst (signOut env_revocation_fails signed_in_world) = Inr ()
   \<and> user (snd (signOut env_revocation_fails signed_in_world)) = JObj []
   \<and> userToken (snd (signOut env_revocation_fails signed_in_world)) = []
   \<and> headers (snd (signOut env_revocation_fails signed_in_world)) ''Authorization'' = None
   \<and> storage (snd (signOut env_revocation_fails signed_in_world)) KEYS_TOKEN = None
   \<and> storage (snd (signOut env_revocation_fails signed_in_world)) KEYS_USER = None"
proof -
  have a: "removeItem_error env_revocation_fails KEYS_TOKEN = None"
    "removeItem_error env_revocation_fails KEYS_USER = None"
    "revokeAsync env_revocation_fails = Some request_failure"
    by (simp_all add: env_revocation_fails_def sample_env_fields)
  show ?thesis
    using signOut_teardown [where env = env_revocation_fails and w = signed_in_world] a
      signed_in_world_fields
    by simp
qed

text \<open>
  The claim as stated fails when the storage rejects the removal of the token entry:
  the second removal is never attempted and both entries are still there after
  \<open>signOut\<close> has rejected.
\<close>

theorem signOut_removal_counterexample:
  "fst (signOut env_removal_fails signed_in_world) = Inl storage_failure
   \<and> storage (snd (signOut env_removal_fails signed_in_world)) KEYS_TOKEN = Some ''tok''
   \<and> storage (snd (signOut env_removal_fails signed_in_world)) KEYS_USER = Some sample_user_json"
proof -
  have a: "removeItem_error env_removal_fails KEYS_TOKEN = Some storage_failure"
    by (simp add: env_removal_fails_def)
  show ?thesis
    using a signed_in_world_fields(6,7)
    by (simp add: signOut_result signOut_storage(1))
qed

text \<open>
  Claim C9. The claim asks that \<open>isLoggingOut\<close> is reset on every exit path of
  \<open>signOut\<close>. The reset of line 183 stands after the two awaited removals of the
  \<^verbatim>\<open>finally\<close> block: when the first removal is rejected, \<open>signOut\<close> rejects with
  that error and \<open>isLoggingOut\<close> stays true. The run below is a sign-out, after the
  sample sign-in, in which the storage rejects the removal of the token entry.
\<close>

theorem signOut_flag_stuck:
  "isLoggingOut signed_in_world = False
   \<and> fst (signOut env_removal_fails signed_in_world)
       = Inl (JsError ''Error'' ''Failed to access the storage'')
   \<and> isLoggingOut (snd (signOut env_removal_fails signed_in_world)) = True
   \<and> trace (snd (signOut env_removal_fails signed_in_world)) =
       trace signed_in_world @
         [SetIsLoggingOut True, RevokeAsync ''tok'' ''client'' revocation, SetUser (JObj []),
          SetUserToken [], RemoveItem KEYS_TOKEN]"
proof -
  have a: "removeItem_error env_removal_fails KEYS_TOKEN = Some storage_failure"
    "CLIENT_ID env_removal_fails = ''client''"
    by (simp_all add: env_removal_fails_def sample_env_fields)
  show ?thesis
    using a signed_in_world_fields(2,4)
    by (simp add: signOut_result signOut_storage(2,3) storage_failure_def)
qed

text \<open>The rest of the claim holds: \<open>signIn\<close> sets \<open>isLoggingIn\<close> first and resets
  it last on every path (\<open>signIn_flag_every_path\<close>), and \<open>signOut\<close> does the same
  with \<open>isLoggingOut\<close> whenever both removals succeed.\<close>

lemma signIn_flag_trace:
  "\<exists>es. trace (snd (signIn env w)) = trace w @ SetIsLoggingIn True # es @ [SetIsLoggingIn False]"
  by (simp add: signIn_def signIn_try_def signIn_profile_def Let_def case_prod_beta frames
      split: option.splits sum.splits)

lemma signOut_flag_when_removals_succeed:
  assumes "removeItem_error env KEYS_TOKEN = None" and "removeItem_error env KEYS_USER = None"
  shows "isLoggingOut (snd (signOut env w)) = False
   \<and> trace (snd (signOut env w)) =
       trace w @ [SetIsLoggingOut True, RevokeAsync (userToken w) (CLIENT_ID env) revocation,
                  SetUser (JObj []), SetUserToken [], RemoveItem KEYS_TOKEN, RemoveItem KEYS_USER,
                  SetIsLoggingOut False]"
  using assms by (simp add: signOut_storage(2,3))

section \<open>The paths of the startup effect\<close>

lemma startup_read_frame:
  "user (snd (startup_read env w)) = user w" "userToken (snd (startup_read env w)) = userToken w"
  "isLoggingIn (snd (startup_read env w)) = isLoggingIn w"
  "isLoggingOut (snd (startup_read env w)) = isLoggingOut w"
  "headers (snd (startup_read env w)) = headers w"
  "storage (snd (startup_read env w)) = storage w"
  by (simp_all add: startup_read_def Let_def case_prod_beta frames
      split: option.splits sum.splits)

lemma startup_read_ok:
  assumes "getItem_error env KEYS_TOKEN = None" and "getItem_error env KEYS_USER = None"
    and "storage w KEYS_USER = Some storagedUser" and "storagedUser \<noteq> []"
    and "JSON_parse env storagedUser = Inr userLogged"
  shows "startup_read env w =
           (Inr (storage w KEYS_TOKEN, userLogged),
            emit (GetItem KEYS_USER) (emit (GetItem KEYS_TOKEN) w))"
  using assms by (simp add: startup_read_def getItem_def emit_def Let_def)

lemma startup_catch_session:
  "user (snd (startup_catch env w)) = JObj []" "userToken (snd (startup_catch env w)) = []"
  "isLoggingIn (snd (startup_catch env w)) = isLoggingIn w"
  "fst (startup_catch env w) =
     (case removeItem_error env KEYS_TOKEN of Some e \<Rightarrow> Inl e
      | None \<Rightarrow> (case removeItem_error env KEYS_USER of Some e \<Rightarrow> Inl e | None \<Rightarrow> Inr ()))"
  "storage (snd (startup_catch env w)) =
     (case removeItem_error env KEYS_TOKEN of Some e \<Rightarrow> storage w
      | None \<Rightarrow> (case removeItem_error env KEYS_USER of Some e \<Rightarrow> (storage w)(KEYS_TOKEN := None)
                 | None \<Rightarrow> (storage w)(KEYS_TOKEN := None, KEYS_USER := None)))"
  by (simp_all add: startup_catch_def Let_def case_prod_beta frames
      split: option.splits sum.splits)

text \<open>The path on which the validation call is rejected.\<close>

lemma startup_rejected_validation:
  assumes "startup_read env w = (Inr (Some storagedToken, userLogged), w1)"
    and "storagedToken \<noteq> []" and "axios_get env = Inl e"
  shows "startup env w =
           (fst (startup_catch env
                  (emit (AxiosGet validate_url [(''Authorization'', ''OAuth '' @ storagedToken)])
                     (setIsLoggingIn True w1))),
            setIsLoggingIn False
              (snd (startup_catch env
                  (emit (AxiosGet validate_url [(''Authorization'', ''OAuth '' @ storagedToken)])
                     (setIsLoggingIn True w1)))))"
  using assms
  by (simp add: startup_def startup_validate_def Let_def case_prod_beta)

text \<open>The path on which the validation response matches the persisted user.\<close>

lemma startup_restore_path:
  assumes "startup_read env w = (Inr (Some storagedToken, userLogged), w1)"
    and "storagedToken \<noteq> []" and "axios_get env = Inr data"
    and "get_prop data ''login'' = Some login"
    and "strict_eq login (opt_prop userLogged ''login'')"
  shows "fst (startup env w) = Inr ()"
    and "user (snd (startup env w)) = userLogged"
    and "userToken (snd (startup env w)) = storagedToken"
  using assms
  by (simp_all add: startup_def startup_validate_def Let_def frames)

text \<open>On every path the effect leaves the user and the token alone, clears both, or
  sets both to the persisted values.\<close>

lemma startup_session:
  "(user (snd (startup env w)) = user w \<and> userToken (snd (startup env w)) = userToken w)
   \<or> (user (snd (startup env w)) = JObj [] \<and> userToken (snd (startup env w)) = [])
   \<or> (\<exists>storagedToken userLogged w1 data login.
         startup_read env w = (Inr (Some storagedToken, userLogged), w1) \<and> storagedToken \<noteq> []
         \<and> axios_get env = Inr data \<and> get_prop data ''login'' = Some login
         \<and> strict_eq login (opt_prop userLogged ''login'')
         \<and> user (snd (startup env w)) = userLogged
         \<and> userToken (snd (startup env w)) = storagedToken)"
proof -
  obtain r w1 where rd: "startup_read env w = (r, w1)"
    by (cases "startup_read env w") auto
  have fr: "user w1 = user w" "userToken w1 = userToken w"
    using startup_read_frame(1,2) [of env w] rd by simp_all
  show ?thesis
  proof (cases r)
    case (Inl e)
    then show ?thesis
      using rd fr by (simp add: startup_def)
  next
    case (Inr p)
    obtain t userLogged where p: "p = (t, userLogged)"
      by (cases p) auto
    show ?thesis
    proof (cases t)
      case None
      then show ?thesis
        using rd Inr p fr by (simp add: startup_def)
    next
      case (Some storagedToken)
      note rd' = rd [unfolded Inr p Some]
      show ?thesis
      proof (cases "storagedToken = []")
        case True
        then show ?thesis
          using rd' fr by (simp add: startup_def)
      next
        case False
        show ?thesis
        proof (cases "axios_get env")
          case (Inl e)
          then show ?thesis
            using rd' False
            by (simp add: startup_def startup_validate_def Let_def case_prod_beta frames
                startup_catch_session)
        next
          case data: (Inr data)
          show ?thesis
          proof (cases "get_prop data ''login''")
            case None
            then show ?thesis
              using rd' False data
              by (simp add: startup_def startup_validate_def Let_def case_prod_beta frames
                  startup_catch_session)
          next
            case login: (Some login)
            show ?thesis
            proof (cases "strict_eq login (opt_prop userLogged ''login'')")
              case True
              then show ?thesis
                using rd' False data login
                by (simp add: startup_def startup_validate_def Let_def case_prod_beta frames)
            next
              case False': False
              then show ?thesis
                using rd' False data login fr
                by (simp add: startup_def startup_validate_def Let_def case_prod_beta frames)
            qed
          qed
        qed
      qed
    qed
  qed
qed

section \<open>Startup: restoring and discarding the persisted session\<close>

text \<open>
  Claim C2. At startup, when the storage holds a non-empty token and a user record,
  the validation call succeeds, and the \<^verbatim>\<open>login\<close> of its response is strictly
  equal to the \<^verbatim>\<open>login\<close> of the parsed user record, the token in memory is set to
  the persisted token and the user in memory to the persisted user. The run makes the
  two reads and the validation request and no other external call: the interactive
  sign-in flow is not started and nothing is written to the storage.
\<close>

theorem startup_restores_session:
  assumes "getItem_error env KEYS_TOKEN = None" and "getItem_error env KEYS_USER = None"
    and "storage w KEYS_TOKEN = Some storagedToken" and "storagedToken \<noteq> []"
    and "storage w KEYS_USER = Some storagedUser" and "storagedUser \<noteq> []"
    and "JSON_parse env storagedUser = Inr userLogged"
    and "axios_get env = Inr data" and "get_prop data ''login'' = Some login"
    and "strict_eq login (opt_prop userLogged ''login'')"
  shows "fst (startup env w) = Inr ()
    \<and> userToken (snd (startup env w)) = storagedToken
    \<and> user (snd (startup env w)) = userLogged
    \<and> isLoggingIn (snd (startup env w)) = False
    \<and> storage (snd (startup env w)) = storage w
    \<and> trace (snd (startup env w)) =
        trace w @ [GetItem KEYS_TOKEN, GetItem KEYS_USER, SetIsLoggingIn True,
                   AxiosGet validate_url [(''Authorization'', ''OAuth '' @ storagedToken)],
                   SetUserToken storagedToken, SetUser userLogged, SetIsLoggingIn False]"
  using assms(3,4,8,9,10) startup_read_ok [OF assms(1,2,5,6,7)]
  by (simp add: startup_def startup_validate_def Let_def frames)

text \<open>The theorem at the component mounting over a stored session.\<close>

theorem startup_restores_session_witness:
  "stored_session KEYS_TOKEN = Some ''tok''
   \<and> strict_eq (JStr ''alice'') (opt_prop sample_user ''login'')
   \<and> fst (AuthProvider sample_env stored_session) = Inr ()
   \<and> userToken (snd (AuthProvider sample_env stored_session)) = ''tok''
   \<and> user (snd (AuthProvider sample_env stored_session)) = sample_user
   \<and> trace (snd (AuthProvider sample_env stored_session)) =
       [GetItem KEYS_TOKEN, GetItem KEYS_USER, SetIsLoggingIn True,
        AxiosGet validate_url [(''Authorization'', ''OAuth tok'')],
        SetUserToken ''tok'', SetUser sample_user, SetIsLoggingIn False]"
proof -
  have a: "storage mounted_world KEYS_TOKEN = Some ''tok''"
    "storage mounted_world KEYS_USER = Some sample_user_json"
    by (simp_all add: mounted_world_fields stored_session_fields)
  have b: "''tok'' \<noteq> []"
    by simp
  have c: "strict_eq (JStr ''alice'') (opt_prop sample_user ''login'')"
    by (simp add: sample_profile(5))
  have d: "AuthProvider sample_env stored_session = startup sample_env mounted_world"
    by (simp add: AuthProvider_def mounted_world_def)
  show ?thesis
    using startup_restores_session [OF sample_env_fields(6) sample_env_fields(6) a(1) b a(2)
        stored_session_fields(3) sample_env_fields(10) sample_env_fields(3) sample_profile(6) c]
      c d stored_session_fields(1) mounted_world_fields(7)
    by simp
qed

text \<open>
  Claim C8, amended. At startup, when the two reads and the parse succeed and give a
  non-empty persisted token, and the validation call is rejected, the user in memory is
  the empty object, the token in memory is the empty string and \<open>isLoggingIn\<close> is
  false afterwards. When both removals from the storage succeed, both persisted
  entries are absent.
\<close>

theorem startup_validation_failure:
  assumes "startup_read env w = (Inr (Some storagedToken, userLogged), w1)"
    and "storagedToken \<noteq> []" and "axios_get env = Inl e"
  shows "user (snd (startup env w)) = JObj []
    \<and> userToken (snd (startup env w)) = []
    \<and> isLoggingIn (snd (startup env w)) = False
    \<and> (removeItem_error env KEYS_TOKEN = None \<longrightarrow> removeItem_error env KEYS_USER = None \<longrightarrow>
         fst (startup env w) = Inr ()
         \<and> storage (snd (startup env w)) KEYS_TOKEN = None
         \<and> storage (snd (startup env w)) KEYS_USER = None)"
  using keys_distinct
  by (simp add: startup_rejected_validation [OF assms] frames startup_catch_session)

text \<open>The theorem at the component mounting over a stored session whose token the
  validation endpoint refuses.\<close>

theorem startup_validation_failure_witness:
  "stored_session KEYS_TOKEN = Some ''tok''
   \<and> axios_get env_validation_fails = Inl request_failure
   \<and> fst (AuthProvider env_validation_fails stored_session) = Inr ()
   \<and> user (snd (AuthProvider env_validation_fails stored_session)) = JObj []
   \<and> userToken (snd (AuthProvider env_validation_fails stored_session)) = []
   \<and> storage (snd (AuthProvider env_validation_fails stored_session)) KEYS_TOKEN = None
   \<and> storage (snd (AuthProvider env_validation_fails stored_session)) KEYS_USER = None"
proof -
  have env: "getItem_error env_validation_fails k = None"
    "JSON_parse env_validation_fails sample_user_json = Inr sample_user"
    "axios_get env_validation_fails = Inl request_failure"
    "removeItem_error env_validation_fails k = None" for k
    by (simp_all add: env_validation_fails_def sample_env_fields)
  define w where "w = header_sync env_validation_fails (initial_world stored_session)"
  have w: "storage w KEYS_USER = Some sample_user_json" "storage w KEYS_TOKEN = Some ''tok''"
    by (simp_all add: w_def initial_world_def header_sync_frame stored_session_fields)
  have rd: "startup_read env_validation_fails w =
      (Inr (Some ''tok'', sample_user), emit (GetItem KEYS_USER) (emit (GetItem KEYS_TOKEN) w))"
    using startup_read_ok [OF env(1) env(1) w(1) stored_session_fields(3) env(2)] w(2) by simp
  have b: "''tok'' \<noteq> []"
    by simp
  have d: "AuthProvider env_validation_fails stored_session = startup env_validation_fails w"
    by (simp add: AuthProvider_def w_def)
  show ?thesis
    using startup_validation_failure [OF rd b env(3)] env(3,4) d stored_session_fields(1)
    by simp
qed

text \<open>
  The claim as stated fails when the storage rejects the removal of the token entry in
  the \<^verbatim>\<open>catch\<close> block: the effect rejects and both persisted entries are still
  there.
\<close>

theorem startup_removal_counterexample:
  "stored_session KEYS_TOKEN = Some ''tok''
   \<and> axios_get env_validation_and_removal_fail = Inl request_failure
   \<and> fst (AuthProvider env_validation_and_removal_fail stored_session) = Inl storage_failure
   \<and> storage (snd (AuthProvider env_validation_and_removal_fail stored_session)) KEYS_TOKEN
       = Some ''tok''
   \<and> storage (snd (AuthProvider env_validation_and_removal_fail stored_session)) KEYS_USER
       = Some sample_user_json"
proof -
  have env: "getItem_error env_validation_and_removal_fail k = None"
    "JSON_parse env_validation_and_removal_fail sample_user_json = Inr sample_user"
    "axios_get env_validation_and_removal_fail = Inl request_failure"
    "removeItem_error env_validation_and_removal_fail KEYS_TOKEN = Some storage_failure" for k
    by (simp_all add: env_validation_and_removal_fail_def env_removal_fails_def sample_env_fields)
  define w where "w = header_sync env_validation_and_removal_fail (initial_world stored_session)"
  have w: "storage w KEYS_USER = Some sample_user_json" "storage w KEYS_TOKEN = Some ''tok''"
    by (simp_all add: w_def initial_world_def header_sync_frame stored_session_fields)
  have rd: "startup_read env_validation_and_removal_fail w =
      (Inr (Some ''tok'', sample_user), emit (GetItem KEYS_USER) (emit (GetItem KEYS_TOKEN) w))"
    using startup_read_ok [OF env(1) env(1) w(1) stored_session_fields(3) env(2)] w(2) by simp
  have b: "''tok'' \<noteq> []"
    by simp
  have d: "AuthProvider env_validation_and_removal_fail stored_session
      = startup env_validation_and_removal_fail w"
    by (simp add: AuthProvider_def w_def)
  show ?thesis
    using env(3,4) w stored_session_fields(1)
    by (simp add: d startup_rejected_validation [OF rd b env(3)] frames startup_catch_session)
qed

section \<open>The user and the token are written together\<close>

text \<open>
  Claim C7, amended. Each operation writes the user and the token together:
  \<open>signIn\<close> leaves both alone or sets the user to the first profile record and the
  token to the access token; \<open>signOut\<close> clears both; the startup effect leaves both
  alone, clears both, or sets both to the persisted values. After \<open>signOut\<close> both are
  absent. From a state in which both are present or both are absent, the same holds
  after \<open>signIn\<close> when the first profile record of a successful run is a non-empty
  object exactly when its access token is non-empty, and after the startup effect when
  the persisted user it restores is a non-empty object.
\<close>

theorem session_written_together:
  "((user (snd (signIn env w)) = user w \<and> userToken (snd (signIn env w)) = userToken w)
      \<or> (\<exists>response data d u. startAsync env = Inr response \<and> type response = ''success''
            \<and> api_get env = Inr data \<and> get_prop data ''data'' = Some d \<and> index0 d = Some u
            \<and> user (snd (signIn env w)) = u
            \<and> userToken (snd (signIn env w)) = access_token (params response)))
   \<and> user (snd (signOut env w)) = JObj [] \<and> userToken (snd (signOut env w)) = []
   \<and> ((user (snd (startup env w)) = user w \<and> userToken (snd (startup env w)) = userToken w)
      \<or> (user (snd (startup env w)) = JObj [] \<and> userToken (snd (startup env w)) = [])
      \<or> (\<exists>storagedToken userLogged w1 data login.
            startup_read env w = (Inr (Some storagedToken, userLogged), w1)
            \<and> storagedToken \<noteq> []
            \<and> axios_get env = Inr data \<and> get_prop data ''login'' = Some login
            \<and> strict_eq login (opt_prop userLogged ''login'')
            \<and> user (snd (startup env w)) = userLogged
            \<and> userToken (snd (startup env w)) = storagedToken))
   \<and> session_coherent (snd (signOut env w))
   \<and> (session_coherent w \<longrightarrow>
        (\<forall>response data d u. startAsync env = Inr response \<and> type response = ''success''
            \<and> api_get env = Inr data \<and> get_prop data ''data'' = Some d \<and> index0 d = Some u
            \<longrightarrow> user_present u = token_present (access_token (params response)))
        \<longrightarrow> session_coherent (snd (signIn env w)))
   \<and> (session_coherent w \<longrightarrow>
        (\<forall>storagedToken userLogged w1 data login.
            startup_read env w = (Inr (Some storagedToken, userLogged), w1)
            \<and> storagedToken \<noteq> []
            \<and> axios_get env = Inr data \<and> get_prop data ''login'' = Some login
            \<and> strict_eq login (opt_prop userLogged ''login'')
            \<longrightarrow> user_present userLogged)
        \<longrightarrow> session_coherent (snd (startup env w)))"
proof (intro conjI impI)
  show "(user (snd (signIn env w)) = user w \<and> userToken (snd (signIn env w)) = userToken w)
      \<or> (\<exists>response data d u. startAsync env = Inr response \<and> type response = ''success''
            \<and> api_get env = Inr data \<and> get_prop data ''data'' = Some d \<and> index0 d = Some u
            \<and> user (snd (signIn env w)) = u
            \<and> userToken (snd (signIn env w)) = access_token (params response))"
    by (rule signIn_session)
  show "user (snd (signOut env w)) = JObj []" and "userToken (snd (signOut env w)) = []"
    by (simp_all add: signOut_session)
  show "(user (snd (startup env w)) = user w \<and> userToken (snd (startup env w)) = userToken w)
      \<or> (user (snd (startup env w)) = JObj [] \<and> userToken (snd (startup env w)) = [])
      \<or> (\<exists>storagedToken userLogged w1 data login.
            startup_read env w = (Inr (Some storagedToken, userLogged), w1)
            \<and> storagedToken \<noteq> []
            \<and> axios_get env = Inr data \<and> get_prop data ''login'' = Some login
            \<and> strict_eq login (opt_prop userLogged ''login'')
            \<and> user (snd (startup env w)) = userLogged
            \<and> userToken (snd (startup env w)) = storagedToken)"
    by (rule startup_session)
  show "session_coherent (snd (signOut env w))"
    by (simp add: session_coherent_def signOut_session user_present_def token_present_def)
  show "session_coherent (snd (signIn env w))"
    if "session_coherent w"
      and "\<forall>response data d u. startAsync env = Inr response \<and> type response = ''success''
            \<and> api_get env = Inr data \<and> get_prop data ''data'' = Some d \<and> index0 d = Some u
            \<longrightarrow> user_present u = token_present (access_token (params response))"
    using signIn_session [of env w] that
    by (auto simp add: session_coherent_def)
  show "session_coherent (snd (startup env w))"
    if "session_coherent w"
      and "\<forall>storagedToken userLogged w1 data login.
            startup_read env w = (Inr (Some storagedToken, userLogged), w1)
            \<and> storagedToken \<noteq> []
            \<and> axios_get env = Inr data \<and> get_prop data ''login'' = Some login
            \<and> strict_eq login (opt_prop userLogged ''login'')
            \<longrightarrow> user_present userLogged"
    using startup_session [of env w] that
    by (auto simp add: session_coherent_def user_present_def token_present_def)
qed

text \<open>The theorem at the sample environment and the component mounted over a stored
  session: the session is absent before, present after the sign-in, absent after the
  sign-out and present after the restore.\<close>

theorem session_written_together_witness:
  "session_coherent mounted_world
   \<and> session_coherent (snd (signIn sample_env mounted_world))
   \<and> session_coherent (snd (signOut sample_env mounted_world))
   \<and> session_coherent (snd (startup sample_env mounted_world))
   \<and> user (snd (startup sample_env mounted_world)) = sample_user
   \<and> userToken (snd (startup sample_env mounted_world)) = ''tok''"
proof -
  have a: "session_coherent mounted_world"
    by (simp add: session_coherent_def mounted_world_fields user_present_def token_present_def)
  have b: "\<forall>response data d u. startAsync sample_env = Inr response
      \<and> type response = ''success'' \<and> api_get sample_env = Inr data
      \<and> get_prop data ''data'' = Some d \<and> index0 d = Some u
      \<longrightarrow> user_present u = token_present (access_token (params response))"
    by (auto simp add: sample_env_fields sample_response_fields sample_profile own_prop_def
        token_present_def)
  have w: "storage mounted_world KEYS_TOKEN = Some ''tok''"
    "storage mounted_world KEYS_USER = Some sample_user_json"
    by (simp_all add: mounted_world_fields stored_session_fields)
  note rd = startup_read_ok [OF sample_env_fields(6) sample_env_fields(6) w(2)
      stored_session_fields(3) sample_env_fields(10)]
  have c: "\<forall>storagedToken userLogged w1 data login.
      startup_read sample_env mounted_world = (Inr (Some storagedToken, userLogged), w1)
      \<and> storagedToken \<noteq> []
      \<and> axios_get sample_env = Inr data \<and> get_prop data ''login'' = Some login
      \<and> strict_eq login (opt_prop userLogged ''login'')
      \<longrightarrow> user_present userLogged"
    using rd by (simp add: sample_profile(4))
  have e: "strict_eq (JStr ''alice'') (opt_prop sample_user ''login'')" "''tok'' \<noteq> []"
    by (simp_all add: sample_profile(5))
  note d = startup_restore_path(2,3) [OF rd [unfolded w(1)] e(2) sample_env_fields(3)
      sample_profile(6) e(1)]
  show ?thesis
    using session_written_together [of sample_env mounted_world] a b c d
    by blast
qed

text \<open>
  The claim as stated fails when the profile response carries an empty list: the first
  element is \<^verbatim>\<open>undefined\<close>, \<open>signIn\<close> stores it as the user together with the
  token, and the component holds a token without a user. It fails at startup when the
  storage holds a token and no user and the validation response has no \<^verbatim>\<open>login\<close>:
  both logins are \<^verbatim>\<open>undefined\<close>, the effect restores the token and sets the user to
  \<^verbatim>\<open>null\<close>.
\<close>

theorem session_coherence_counterexample:
  "session_coherent fresh_world
   \<and> api_get env_no_profile = Inr (JObj [(''data'', JArr [])])
   \<and> user (snd (signIn env_no_profile fresh_world)) = JUndefined
   \<and> userToken (snd (signIn env_no_profile fresh_world)) = ''tok''
   \<and> \<not> session_coherent (snd (signIn env_no_profile fresh_world))
   \<and> session_coherent (header_sync env_no_login (initial_world token_only_session))
   \<and> user (snd (AuthProvider env_no_login token_only_session)) = JNull
   \<and> userToken (snd (AuthProvider env_no_login token_only_session)) = ''tok''
   \<and> \<not> session_coherent (snd (AuthProvider env_no_login token_only_session))"
proof -
  have env: "startAsync env_no_profile = Inr sample_response"
    "api_get env_no_profile = Inr (JObj [(''data'', JArr [])])"
    "setItem_error env_no_profile KEYS_TOKEN = None"
    by (simp_all add: env_no_profile_def sample_env_fields)
  have p: "get_prop (JObj [(''data'', JArr [])]) ''data'' = Some (JArr [])"
    "index0 (JArr []) = Some JUndefined"
    by (simp_all add: own_prop_def)
  note r = signIn_undefined_profile [OF env(1) sample_response_fields(1) env(2) p env(3),
      of fresh_world]
  define w where "w = header_sync env_no_login (initial_world token_only_session)"
  have w: "user w = JObj []" "userToken w = []" "storage w KEYS_TOKEN = Some ''tok''"
    "storage w KEYS_USER = None"
    using keys_distinct
    by (simp_all add: w_def initial_world_def header_sync_frame token_only_session_def)
  have env': "getItem_error env_no_login k = None"
    "axios_get env_no_login = Inr (JObj [(''client_id'', JStr ''client'')])" for k
    by (simp_all add: env_no_login_def sample_env_fields)
  have rd: "startup_read env_no_login w =
      (Inr (Some ''tok'', JNull), emit (GetItem KEYS_USER) (emit (GetItem KEYS_TOKEN) w))"
    using w(3,4) env'(1) by (simp add: startup_read_def getItem_def emit_def Let_def)
  have q: "get_prop (JObj [(''client_id'', JStr ''client'')]) ''login'' = Some JUndefined"
    "strict_eq JUndefined (opt_prop JNull ''login'')" "''tok'' \<noteq> []"
    by (simp_all add: own_prop_def opt_prop_def)
  note s = startup_restore_path [OF rd q(3) env'(2) q(1,2)]
  have d: "AuthProvider env_no_login token_only_session = startup env_no_login w"
    by (simp add: AuthProvider_def w_def)
  show ?thesis
    using r(2,3) env(2) s(2,3) w(1,2)
    by (simp add: d w_def [symmetric] session_coherent_def fresh_world_fields user_present_def
        token_present_def sample_response_fields)
qed

end
